theory Spec2Isabelle
  imports Main
begin

section \<open>Python strings\<close>

text \<open>
  A Python \<open>str\<close> is a sequence of Unicode code points; a code point is modelled as a
  natural number and a string as the list of its code points. \<open>lit\<close> turns an ASCII
  literal of the source into that representation.
\<close>

type_synonym pystr = "nat list"

definition lit :: "string \<Rightarrow> pystr" where
  "lit s = map of_char s"

text \<open>
  The characters \<open>str.strip()\<close> removes (those for which \<open>str.isspace\<close> holds):
  U+0009..U+000D, U+001C..U+0020, U+0085, U+00A0, U+1680, U+2000..U+200A, U+2028,
  U+2029, U+202F, U+205F, U+3000.
\<close>

definition isspace :: "nat \<Rightarrow> bool" where
  "isspace c \<longleftrightarrow>
     (9 \<le> c \<and> c \<le> 13) \<or> (28 \<le> c \<and> c \<le> 32) \<or> c = 133 \<or> c = 160 \<or> c = 5760 \<or>
     (8192 \<le> c \<and> c \<le> 8202) \<or> c = 8232 \<or> c = 8233 \<or> c = 8239 \<or> c = 8287 \<or> c = 12288"

text \<open>
  The line boundaries of \<open>str.splitlines()\<close>: LF, VT, FF, CR, FS, GS, RS, NEL, LS, PS
  (CR LF counts as one boundary, see \<open>splitlines_from\<close>).
\<close>

definition is_linebreak :: "nat \<Rightarrow> bool" where
  "is_linebreak c \<longleftrightarrow>
     (10 \<le> c \<and> c \<le> 13) \<or> (28 \<le> c \<and> c \<le> 30) \<or> c = 133 \<or> c = 8232 \<or> c = 8233"

text \<open>\<open>s.strip()\<close>: leading and trailing whitespace removed.\<close>

definition strip :: "pystr \<Rightarrow> pystr" where
  "strip s = rev (dropWhile isspace (rev (dropWhile isspace s)))"

text \<open>\<open>s.startswith(p)\<close>.\<close>

definition startswith :: "pystr \<Rightarrow> pystr \<Rightarrow> bool" where
  "startswith s p \<longleftrightarrow> take (length p) s = p"

text \<open>
  \<open>s.split('\n')\<close>: the pieces between line feeds (code point 10), \<open>cur\<close> being the
  piece read so far; the result always has at least one piece, so
  \<open>''.split('\n') = ['']\<close>.
\<close>

fun split_from :: "pystr \<Rightarrow> pystr \<Rightarrow> pystr list" where
  "split_from cur [] = [cur]"
| "split_from cur (c # cs) =
     (if c = 10 then cur # split_from [] cs else split_from (cur @ [c]) cs)"

definition split_nl :: "pystr \<Rightarrow> pystr list" where
  "split_nl s = split_from [] s"

text \<open>
  \<open>s.splitlines()\<close>: \<open>cur\<close> is the line read so far. A boundary ends the line (CR
  followed by LF is one boundary); text after the last boundary is a line only when it is
  not empty.
\<close>

fun splitlines_from :: "pystr \<Rightarrow> pystr \<Rightarrow> pystr list" where
  "splitlines_from cur [] = (if cur = [] then [] else [cur])"
| "splitlines_from cur [c] =
     (if is_linebreak c then [cur] else [cur @ [c]])"
| "splitlines_from cur (c # d # ds) =
     (if c = 13 \<and> d = 10 then cur # splitlines_from [] ds
      else if is_linebreak c then cur # splitlines_from [] (d # ds)
      else splitlines_from (cur @ [c]) (d # ds))"

definition splitlines :: "pystr \<Rightarrow> pystr list" where
  "splitlines s = splitlines_from [] s"

text \<open>
  \<open>s.replace(old, new)\<close>: every non-overlapping occurrence of \<open>old\<close>, found from the
  left, is replaced. With an empty \<open>old\<close> Python inserts \<open>new\<close> before every character and
  at the end.
\<close>

function replace_from :: "pystr \<Rightarrow> pystr \<Rightarrow> pystr \<Rightarrow> pystr" where
  "replace_from old new [] = []"
| "replace_from old new (c # cs) =
     (if old \<noteq> [] \<and> startswith (c # cs) old
      then new @ replace_from old new (drop (length old) (c # cs))
      else c # replace_from old new cs)"
  by pat_completeness auto
termination
  by (relation "measure (\<lambda>(old, new, s). length s)") auto

definition replace :: "pystr \<Rightarrow> pystr \<Rightarrow> pystr \<Rightarrow> pystr" where
  "replace s old new =
     (if old = [] then new @ concat (map (\<lambda>c. c # new) s) else replace_from old new s)"

text \<open>\<open>'\n'.join(lines)\<close>.\<close>

fun join_nl :: "pystr list \<Rightarrow> pystr" where
  "join_nl [] = []"
| "join_nl [l] = l"
| "join_nl (l # m # ls) = l @ 10 # join_nl (m # ls)"

section \<open>The sanitizer: \<open>process_generated_config\<close> (task-2/main.py)\<close>

text \<open>
  The body of the \<open>for line in lines\<close> loop; \<open>commands\<close> is the list the loop appends
  to. A line is trimmed; an empty line and a line starting with \<open>#\<close> or \<open>!\<close> is skipped;
  the first of the three prompts the line starts with is removed with \<open>str.replace\<close>,
  the rest is trimmed again and appended unless empty.
\<close>

definition strip_prompt :: "pystr \<Rightarrow> pystr" where
  "strip_prompt line =
     (if startswith line (lit ''Router(config)#'')
        then strip (replace line (lit ''Router(config)#'') [])
      else if startswith line (lit ''(config)#'')
        then strip (replace line (lit ''(config)#'') [])
      else if startswith line (lit ''R1(config)#'')
        then strip (replace line (lit ''R1(config)#'') [])
      else line)"

fun sanitize_loop :: "pystr list \<Rightarrow> pystr list \<Rightarrow> pystr list" where
  "sanitize_loop [] commands = commands"
| "sanitize_loop (l # lines) commands =
     (let line = strip l in
      if line \<noteq> [] \<and> \<not> startswith line (lit ''#'') \<and> \<not> startswith line (lit ''!'')
      then (let line' = strip_prompt line in
            if line' \<noteq> [] then sanitize_loop lines (commands @ [line'])
            else sanitize_loop lines commands)
      else sanitize_loop lines commands)"

definition process_generated_config :: "pystr \<Rightarrow> pystr list" where
  "process_generated_config config =
     (if config = [] then []
      else sanitize_loop (split_nl (strip config)) [])"

text \<open>
  What one line of the input contributes to the result of the loop: the command the
  loop body appends for it, if any. It serves to state that the loop keeps the order of
  the lines.
\<close>

definition clean_line :: "pystr \<Rightarrow> pystr option" where
  "clean_line l =
     (let line = strip l in
      if line \<noteq> [] \<and> \<not> startswith line (lit ''#'') \<and> \<not> startswith line (lit ''!'')
      then (if strip_prompt line \<noteq> [] then Some (strip_prompt line) else None)
      else None)"

text \<open>
  A line that a further pass leaves alone: it starts neither with a comment marker nor
  with one of the three prompts.
\<close>

definition plain_line :: "pystr \<Rightarrow> bool" where
  "plain_line l \<longleftrightarrow>
     \<not> startswith l (lit ''#'') \<and> \<not> startswith l (lit ''!'') \<and>
     \<not> startswith l (lit ''Router(config)#'') \<and> \<not> startswith l (lit ''(config)#'') \<and>
     \<not> startswith l (lit ''R1(config)#'')"

section \<open>The renderer: \<open>render_interface_config\<close> (connection_tool.py)\<close>

text \<open>
  Jinja2 renders the template text as it stands and puts the value of each variable in
  place of its \<open>{{ ... }}\<close> expression; the arguments are strings. The two template
  strings of the source are triple-quoted: a line feed, the lines indented by 8 and 12
  blanks, and 8 blanks after the last line feed.
\<close>

definition render_template :: "pystr \<Rightarrow> pystr \<Rightarrow> pystr \<Rightarrow> pystr \<Rightarrow> pystr" where
  "render_template action interface ip_address subnet_mask =
     (if action = lit ''create''
      then lit ''\<newline>        interface '' @ interface @
           lit ''\<newline>            ip address '' @ ip_address @ lit '' '' @ subnet_mask @
           lit ''\<newline>            no shutdown\<newline>        ''
      else lit ''\<newline>        interface '' @ interface @
           lit ''\<newline>            no ip address\<newline>            shutdown\<newline>        '')"

text \<open>\<open>[line.strip() for line in rendered_config.splitlines() if line.strip()]\<close>\<close>

definition render_interface_config :: "pystr \<Rightarrow> pystr \<Rightarrow> pystr \<Rightarrow> pystr \<Rightarrow> pystr list" where
  "render_interface_config action interface ip_address subnet_mask =
     map strip (filter (\<lambda>line. strip line \<noteq> [])
       (splitlines (render_template action interface ip_address subnet_mask)))"

section \<open>Exceptions, dictionaries and the trace of effects\<close>

text \<open>
  A raised exception carries its message \<open>str(e)\<close>. \<open>Exception\<close> stands for an instance
  of Python's \<open>Exception\<close> class, which \<open>except Exception\<close> catches; \<open>BaseException\<close>
  for one outside it (\<open>KeyboardInterrupt\<close>, \<open>SystemExit\<close>), which it does not catch. A
  function that can raise returns \<open>exn + 'a\<close>.
\<close>

datatype exn = Exception pystr | BaseException pystr

text \<open>An inventory row (\<open>csv.DictReader\<close>) is a dictionary from column names to text.\<close>

type_synonym device = "pystr \<rightharpoonup> pystr"

text \<open>\<open>d.get(k, default)\<close> and \<open>d[k]\<close>; the latter raises \<open>KeyError(k)\<close>.\<close>

definition dict_get :: "device \<Rightarrow> pystr \<Rightarrow> pystr \<Rightarrow> pystr" where
  "dict_get d k dflt = (case d k of None \<Rightarrow> dflt | Some v \<Rightarrow> v)"

definition getitem :: "device \<Rightarrow> pystr \<Rightarrow> exn + pystr" where
  "getitem d k = (case d k of None \<Rightarrow> Inl (Exception (39 # k @ [39])) | Some v \<Rightarrow> Inr v)"

text \<open>The connection parameters \<open>get_conn_info\<close> builds, passed to \<open>ConnectHandler\<close>.\<close>

record conn_info =
  device_type :: pystr
  host :: pystr
  username :: pystr
  password :: pystr
  secret :: pystr

text \<open>
  What the program does to the outside world, in order: the calls to the session
  transport, the lines written with \<open>click.echo\<close> and \<open>print\<close>, the prompts of
  \<open>input\<close> and the requests to the text-generation backend. A function with effects
  returns the events it caused together with its result.
\<close>

datatype event =
    Connect conn_info
  | Enable conn_info
  | Send_config_set conn_info "pystr list"
  | Disconnect conn_info
  | Echo pystr
  | Print pystr
  | Input pystr
  | Post pystr

text \<open>
  The command lists handed to \<open>send_config_set\<close>, the number of \<open>disconnect\<close> calls and
  the prompts shown by \<open>input\<close>.
\<close>

fun sent :: "event list \<Rightarrow> pystr list list" where
  "sent [] = []"
| "sent (Send_config_set c cmds # evs) = cmds # sent evs"
| "sent (e # evs) = sent evs"

fun closes :: "event list \<Rightarrow> nat" where
  "closes [] = 0"
| "closes (Disconnect c # evs) = Suc (closes evs)"
| "closes (e # evs) = closes evs"

fun prompts :: "event list \<Rightarrow> pystr list" where
  "prompts [] = []"
| "prompts (Input p # evs) = p # prompts evs"
| "prompts (e # evs) = prompts evs"

section \<open>The session gateway (connection_tool.py)\<close>

text \<open>
  The session transport (netmiko) is outside the repository; it is a parameter. Each
  operation either returns or raises: \<open>connect_handler\<close> is \<open>ConnectHandler(**device)\<close>,
  \<open>enable\<close>, \<open>send_config_set\<close> and \<open>disconnect\<close> are the methods of the connection it
  returns. A connection is identified by the parameters it was opened with.
\<close>

record transport =
  connect_handler :: "conn_info \<Rightarrow> exn option"
  enable :: "conn_info \<Rightarrow> exn option"
  send_config_set :: "conn_info \<Rightarrow> pystr list \<Rightarrow> exn + pystr"
  disconnect :: "conn_info \<Rightarrow> exn option"

text \<open>
  \<open>connect_device\<close>: an \<open>Exception\<close> of \<open>ConnectHandler\<close> or \<open>enable\<close> is reported with
  \<open>click.echo\<close> and \<open>None\<close> is returned.
\<close>

definition connect_error :: "conn_info \<Rightarrow> pystr \<Rightarrow> event" where
  "connect_error device e =
     Echo (lit ''Error connecting to device '' @ host device @ lit '': '' @ e)"

definition connect_device :: "transport \<Rightarrow> conn_info \<Rightarrow> event list \<times> (exn + conn_info option)" where
  "connect_device T device =
     (case connect_handler T device of
        Some (Exception e) \<Rightarrow> ([Connect device, connect_error device e], Inr None)
      | Some (BaseException e) \<Rightarrow> ([Connect device], Inl (BaseException e))
      | None \<Rightarrow>
          (case enable T device of
             Some (Exception e) \<Rightarrow>
               ([Connect device, Enable device, connect_error device e], Inr None)
           | Some (BaseException e) \<Rightarrow> ([Connect device, Enable device], Inl (BaseException e))
           | None \<Rightarrow> ([Connect device, Enable device], Inr (Some device))))"

definition get_conn_info :: "device \<Rightarrow> exn + conn_info" where
  "get_conn_info dev_data =
     (case getitem dev_data (lit ''Management IP'') of
        Inl e \<Rightarrow> Inl e
      | Inr h \<Rightarrow>
     (case getitem dev_data (lit ''Username'') of
        Inl e \<Rightarrow> Inl e
      | Inr u \<Rightarrow>
     (case getitem dev_data (lit ''Password'') of
        Inl e \<Rightarrow> Inl e
      | Inr p \<Rightarrow>
          Inr \<lparr>device_type = lit ''cisco_ios'', host = h, username = u,
               password = p, secret = p\<rparr>)))"

text \<open>
  \<open>send_config\<close>: \<open>try\<close> the call, turn an \<open>Exception\<close> into the error text, and
  \<open>finally\<close> disconnect; an exception of \<open>disconnect\<close> itself leaves the function.
\<close>

definition send_config :: "transport \<Rightarrow> conn_info \<Rightarrow> pystr list \<Rightarrow> event list \<times> (exn + pystr)" where
  "send_config T device commands =
     (case connect_device T device of
        (evs, Inl e) \<Rightarrow> (evs, Inl e)
      | (evs, Inr None) \<Rightarrow> (evs, Inr (lit ''Connection failed; configuration not sent.''))
      | (evs, Inr (Some conn)) \<Rightarrow>
          (let outcome =
             (case send_config_set T conn commands of
                Inr out \<Rightarrow> Inr out
              | Inl (Exception e) \<Rightarrow> Inr (lit ''Error sending configuration: '' @ e)
              | Inl (BaseException e) \<Rightarrow> Inl (BaseException e))
           in (evs @ [Send_config_set conn commands, Disconnect conn],
               case disconnect T conn of Some e \<Rightarrow> Inl e | None \<Rightarrow> outcome)))"

definition establish_connection :: "transport \<Rightarrow> device \<Rightarrow> event list \<times> (exn + conn_info option)" where
  "establish_connection T device_data =
     (case get_conn_info device_data of
        Inl e \<Rightarrow> ([], Inl e)
      | Inr conn_info \<Rightarrow> connect_device T conn_info)"

text \<open>The dictionary \<open>send_commands\<close> returns: the keys \<open>success\<close>, and \<open>output\<close> or \<open>error\<close>.\<close>

record send_result =
  success :: bool
  output_text :: "pystr option"
  error_text :: "pystr option"

definition send_commands :: "transport \<Rightarrow> conn_info option \<Rightarrow> pystr list \<Rightarrow> event list \<times> (exn + send_result)" where
  "send_commands T connection commands =
     (case connection of
        None \<Rightarrow>
          ([], Inr \<lparr>success = False, output_text = None, error_text = Some (lit ''No active connection'')\<rparr>)
      | Some conn \<Rightarrow>
          ([Send_config_set conn commands],
           case send_config_set T conn commands of
             Inr out \<Rightarrow> Inr \<lparr>success = True, output_text = Some out, error_text = None\<rparr>
           | Inl (Exception e) \<Rightarrow> Inr \<lparr>success = False, output_text = None, error_text = Some e\<rparr>
           | Inl (BaseException e) \<Rightarrow> Inl (BaseException e)))"

section \<open>The deployment stage: \<open>deploy_configuration\<close> (task-2/main.py)\<close>

text \<open>
  The function of the deployment stage, which the source keeps between triple-quote
  markers with the instruction to remove them. It opens the connection, sends the
  commands and reports the outcome.
\<close>

definition deploy_configuration :: "transport \<Rightarrow> device \<Rightarrow> pystr list \<Rightarrow> event list \<times> (exn + bool)" where
  "deploy_configuration T device_data config_commands =
     (case establish_connection T device_data of
        (evs, Inl e) \<Rightarrow> (evs, Inl e)
      | (evs, Inr None) \<Rightarrow>
          (evs @ [Print (lit ''Failed to establish device connection'')], Inr False)
      | (evs, Inr (Some connection)) \<Rightarrow>
          (case send_commands T (Some connection) config_commands of
             (evs', Inl e) \<Rightarrow> (evs @ evs', Inl e)
           | (evs', Inr result) \<Rightarrow>
               if success result
               then (evs @ evs' @
                     [Print (lit ''Configuration deployment completed successfully'')] @
                     (case output_text result of
                        None \<Rightarrow> []
                      | Some out \<Rightarrow>
                          if out = [] then []
                          else [Print (lit ''Device response:''), Print out]),
                     Inr True)
               else (evs @ evs' @
                     [Print (lit ''Configuration deployment failed: '' @
                        (case error_text result of None \<Rightarrow> lit ''Unknown error'' | Some e \<Rightarrow> e))],
                     Inr False)))"

section \<open>The text-generation backend: \<open>query_ollama\<close>, \<open>generate_device_config\<close>\<close>

text \<open>
  The HTTP service is outside the repository. One request ends in one of these ways,
  one for each statement of the \<open>try\<close> block of \<open>query_ollama\<close>: \<open>requests.post\<close> raises
  (backend unreachable, timeout), \<open>raise_for_status\<close> raises (status not 2xx),
  \<open>response.json()\<close> raises (malformed JSON), the body is JSON but no object so that
  \<open>result.get\<close> raises, or the body is an object, with or without an entry
  \<open>response\<close>. The exceptions raised there are instances of \<open>Exception\<close>; each outcome
  carries the message. A JSON value is text, or something else (the name of its Python
  type is kept for the message of the \<open>AttributeError\<close>).
\<close>

datatype pyval = Text pystr | Non_text pystr

datatype http_outcome =
    Post_raises pystr
  | Status_raises pystr
  | Json_raises pystr
  | Json_not_dict pystr
  | Json_dict "pyval option"

text \<open>The body of the \<open>try\<close> block, and \<open>query_ollama\<close> with its \<open>except Exception\<close>.\<close>

definition ollama_request :: "http_outcome \<Rightarrow> exn + pyval" where
  "ollama_request r =
     (case r of
        Post_raises e \<Rightarrow> Inl (Exception e)
      | Status_raises e \<Rightarrow> Inl (Exception e)
      | Json_raises e \<Rightarrow> Inl (Exception e)
      | Json_not_dict e \<Rightarrow> Inl (Exception e)
      | Json_dict None \<Rightarrow> Inr (Text (lit ''No response generated''))
      | Json_dict (Some v) \<Rightarrow> Inr v)"

definition query_ollama :: "(pystr \<Rightarrow> http_outcome) \<Rightarrow> pystr \<Rightarrow> event list \<times> (exn + pyval)" where
  "query_ollama post prompt =
     ([Post prompt],
      case ollama_request (post prompt) of
        Inr v \<Rightarrow> Inr v
      | Inl (Exception e) \<Rightarrow> Inr (Text (lit ''Error communicating with Ollama: '' @ e))
      | Inl (BaseException e) \<Rightarrow> Inl (BaseException e))"

definition build_prompt :: "device \<Rightarrow> pystr \<Rightarrow> pystr" where
  "build_prompt device_info requirements =
     lit ''\<newline>    Generate a Cisco IOS XE configuration for the following device and requirements:\<newline>\<newline>    Device Information:\<newline>    - Name: '' @
     dict_get device_info (lit ''Name'') (lit ''Unknown'') @
     lit ''\<newline>    - Type: Router\<newline>    - Management IP: '' @
     dict_get device_info (lit ''Management IP'') (lit ''Unknown'') @
     lit ''\<newline>    - Location: '' @
     dict_get device_info (lit ''Description'') (lit ''Unknown'') @
     lit ''\<newline>\<newline>    Requirements:\<newline>    '' @ requirements @
     lit ''\<newline>\<newline>    Please provide only the Cisco IOS XE configuration commands, without explanations or comments.\<newline>    Start with the interface configuration and include all necessary commands.\<newline>    ''"

text \<open>
  \<open>generate_device_config\<close>: \<open>None\<close> when the answer starts with \<open>Error\<close>. An answer
  that is not text has no \<open>startswith\<close>: the call raises \<open>AttributeError\<close>.
\<close>

definition generate_device_config ::
    "(pystr \<Rightarrow> http_outcome) \<Rightarrow> device \<Rightarrow> pystr \<Rightarrow> event list \<times> (exn + pystr option)" where
  "generate_device_config post device_info requirements =
     (let prompt = build_prompt device_info requirements;
          evs = [Print (lit ''Generating configuration for '' @
                   dict_get device_info (lit ''Name'') (lit ''device'') @ lit ''...''),
                 Print (lit ''This may take a few moments...'')]
      in case query_ollama post prompt of
           (evs', Inl e) \<Rightarrow> (evs @ evs', Inl e)
         | (evs', Inr (Non_text ty)) \<Rightarrow>
             (evs @ evs',
              Inl (Exception (39 # ty @ 39 # lit '' object has no attribute '' @
                     39 # lit ''startswith'' @ [39])))
         | (evs', Inr (Text generated_config)) \<Rightarrow>
             if startswith generated_config (lit ''Error'')
             then (evs @ evs' @
                   [Print (lit ''Configuration generation failed: '' @ generated_config)],
                   Inr None)
             else (evs @ evs' @ [Print (lit ''Configuration generated successfully!'')],
                   Inr (Some generated_config)))"

section \<open>The pipeline driver: \<open>main\<close> (task-2/main.py)\<close>

text \<open>
  The driver asks the backend once for each device and reads the terminal with
  \<open>input\<close>. The environment gives the outcome of the \<open>n\<close>-th request to the backend and
  the \<open>k\<close>-th line typed; the driver's state is the pair of the two counters.
\<close>

record env =
  backend :: "nat \<Rightarrow> pystr \<Rightarrow> http_outcome"
  stdin :: "nat \<Rightarrow> pystr"

text \<open>\<open>str(n)\<close> for a length: the decimal digits.\<close>

fun str_nat :: "nat \<Rightarrow> pystr" where
  "str_nat n = (if n < 10 then [48 + n] else str_nat (n div 10) @ [48 + n mod 10])"

text \<open>
  The body of \<open>for device_data in inventory\<close>. \<open>apply.lower() == 'y'\<close> holds for the
  answers \<open>y\<close> and \<open>Y\<close>. The deployment itself is the line printed in its place.
\<close>

definition process_device :: "env \<Rightarrow> pystr \<Rightarrow> device \<Rightarrow> nat \<times> nat \<Rightarrow> event list \<times> (exn + nat \<times> nat)" where
  "process_device E requirements device_data s =
     (case s of (n, k) \<Rightarrow>
      (let device_name = dict_get device_data (lit ''Name'') (lit ''Unknown'');
           banner = [Print (10 # replicate 50 61),
                     Print (lit ''Processing device: '' @ device_name),
                     Print (replicate 50 61)];
           completed = [Print (lit ''\<newline>Completed processing for '' @ device_name)]
       in case generate_device_config (backend E n) device_data requirements of
            (evs, Inl e) \<Rightarrow> (banner @ evs, Inl e)
          | (evs, Inr None) \<Rightarrow> (banner @ evs @ completed, Inr (Suc n, k))
          | (evs, Inr (Some generated_config)) \<Rightarrow>
              if generated_config = [] then (banner @ evs @ completed, Inr (Suc n, k))
              else
               (let shown = [Print (lit ''\<newline>Generated configuration for '' @ device_name @ lit '':''),
                             Print (replicate 40 45),
                             Print generated_config,
                             Print (replicate 40 45)];
                    config_commands = process_generated_config generated_config
                in if config_commands = []
                   then (banner @ evs @ shown @
                         [Print (lit ''No valid configuration commands generated'')] @ completed,
                         Inr (Suc n, k))
                   else (banner @ evs @ shown @
                         [Print (lit ''\<newline>Processed '' @ str_nat (length config_commands) @
                                 lit '' configuration commands''),
                          Input (lit ''\<newline>Apply configuration to '' @ device_name @
                                 lit ''? (y/N): ''),
                          if stdin E k = lit ''y'' \<or> stdin E k = lit ''Y''
                          then Print (lit ''Configuration deployment will be implemented in Task 3'')
                          else Print (lit ''Configuration saved but not applied'')] @ completed,
                         Inr (Suc n, Suc k)))))"

fun main_loop :: "env \<Rightarrow> pystr \<Rightarrow> device list \<Rightarrow> nat \<times> nat \<Rightarrow> event list \<times> (exn + nat \<times> nat)" where
  "main_loop E requirements [] s = ([], Inr s)"
| "main_loop E requirements (device_data # inventory) s =
     (case process_device E requirements device_data s of
        (evs, Inl e) \<Rightarrow> (evs, Inl e)
      | (evs, Inr s') \<Rightarrow>
          (case main_loop E requirements inventory s' of (evs', r) \<Rightarrow> (evs @ evs', r)))"

text \<open>
  \<open>main\<close>: \<open>inventory_file\<close> is what \<open>read_inventory('inventory.csv')\<close> returns or
  raises. The first line typed is the requirement; an empty one ends the run.
\<close>

definition main :: "env \<Rightarrow> exn + device list \<Rightarrow> event list \<times> (exn + unit)" where
  "main E inventory_file =
     (let started = [Print (lit ''Starting AI-powered network automation...'')]
      in case inventory_file of
           Inl (Exception e) \<Rightarrow>
             (started @ [Print (lit ''Error loading inventory: '' @ e)], Inr ())
         | Inl (BaseException e) \<Rightarrow> (started, Inl (BaseException e))
         | Inr inventory \<Rightarrow>
             (let asked = started @
                    [Print (lit ''Loaded '' @ str_nat (length inventory) @
                            lit '' devices from inventory''),
                     Print (lit ''\<newline>Enter your network configuration requirements:''),
                     Print (lit ''Example: Configure interface GigabitEthernet0/1 with IP 192.168.1.1/24 and enable it''),
                     Input (lit ''Requirements: '')];
                  requirements = stdin E 0
              in if strip requirements = []
                 then (asked @ [Print (lit ''No requirements provided. Exiting.'')], Inr ())
                 else (case main_loop E requirements inventory (0, 1) of
                         (evs, Inl e) \<Rightarrow> (asked @ evs, Inl e)
                       | (evs, Inr s) \<Rightarrow> (asked @ evs, Inr ()))))"

section \<open>Stubs of the collaborators, for the examples\<close>

text \<open>
  An inventory row and its connection parameters; a transport on which every call
  succeeds, one whose \<open>send_config_set\<close> raises, and one that cannot connect.
\<close>

definition inventory_row :: "pystr \<Rightarrow> pystr \<Rightarrow> device" where
  "inventory_row name address =
     [lit ''Name'' \<mapsto> name, lit ''Management IP'' \<mapsto> address, lit ''Username'' \<mapsto> lit ''admin'',
      lit ''Password'' \<mapsto> lit ''x'', lit ''Description'' \<mapsto> lit ''core'']"

definition r1_conn :: conn_info where
  "r1_conn = \<lparr>device_type = lit ''cisco_ios'', host = lit ''10.0.0.1'', username = lit ''admin'',
              password = lit ''x'', secret = lit ''x''\<rparr>"

definition stub_ok :: transport where
  "stub_ok = \<lparr>connect_handler = (\<lambda>d. None), enable = (\<lambda>c. None),
              send_config_set = (\<lambda>c cmds. Inr (lit ''R1(config)#end'')),
              disconnect = (\<lambda>c. None)\<rparr>"

definition stub_apply_fails :: transport where
  "stub_apply_fails = \<lparr>connect_handler = (\<lambda>d. None), enable = (\<lambda>c. None),
              send_config_set = (\<lambda>c cmds. Inl (Exception (lit ''Socket is closed''))),
              disconnect = (\<lambda>c. None)\<rparr>"

definition stub_open_fails :: transport where
  "stub_open_fails = \<lparr>connect_handler = (\<lambda>d. Some (Exception (lit ''timed out''))),
              enable = (\<lambda>c. None),
              send_config_set = (\<lambda>c cmds. Inr (lit ''R1(config)#end'')),
              disconnect = (\<lambda>c. None)\<rparr>"

text \<open>
  A backend whose second request (number 1) times out and whose other requests answer
  with two commands, and a terminal that gives the requirement and then declines each
  confirmation.
\<close>

definition stub_env :: env where
  "stub_env = \<lparr>backend = (\<lambda>n prompt.
                  if n = 1 then Post_raises (lit ''Read timed out.'')
                  else Json_dict (Some (Text (lit ''interface Gi0/1\<newline> no shutdown'')))),
               stdin = (\<lambda>k. if k = 0 then lit ''enable Gi0/1'' else lit ''n'')\<rparr>"

text \<open>
  The same backend and terminal, with the answer to the second request (number 1)
  given as a parameter.
\<close>

definition stub_env_answering :: "http_outcome \<Rightarrow> env" where
  "stub_env_answering r =
     \<lparr>backend = (\<lambda>n prompt.
        if n = 1 then r
        else Json_dict (Some (Text (lit ''interface Gi0/1\<newline> no shutdown'')))),
      stdin = (\<lambda>k. if k = 0 then lit ''enable Gi0/1'' else lit ''n'')\<rparr>"

section \<open>Properties of the string operations\<close>

lemma dropWhile_all: "\<forall>c\<in>set ws. P c \<Longrightarrow> dropWhile P ws = []"
  by (induction ws) auto

lemma dropWhile_lead: "\<forall>c\<in>set ws. P c \<Longrightarrow> dropWhile P (ws @ s) = dropWhile P s"
  by (induction ws) auto

lemma strip_Nil: "strip [] = []" by (simp add: strip_def)

lemma set_strip: "set (strip s) \<subseteq> set s"
proof -
  have "set (dropWhile isspace (rev (dropWhile isspace s))) \<subseteq> set (rev (dropWhile isspace s))"
    by (rule set_dropWhileD[THEN subsetI]) 
  also have "\<dots> \<subseteq> set s" using set_dropWhileD[of _ isspace s] by auto
  finally show ?thesis by (simp add: strip_def)
qed

lemma strip_ends:
  assumes "strip s \<noteq> []"
  shows "\<not> isspace (hd (strip s))" and "\<not> isspace (last (strip s))"
proof -
  let ?a = "dropWhile isspace s"
  let ?b = "dropWhile isspace (rev ?a)"
  have b: "?b \<noteq> []" using assms by (simp add: strip_def)
  then have hb: "\<not> isspace (hd ?b)" by (rule hd_dropWhile)
  have "last (strip s) = hd ?b" using b by (simp add: strip_def last_rev)
  then show "\<not> isspace (last (strip s))" using hb by simp
  have a: "?a \<noteq> []" using b by (metis dropWhile.simps(1) rev.simps(1))
  then have ha: "\<not> isspace (hd ?a)" by (rule hd_dropWhile)
  have "?a = rev ?b @ rev (takeWhile isspace (rev ?a))"
    by (metis rev_append rev_rev_ident takeWhile_dropWhile_id)
  then have "hd ?a = hd (rev ?b)" using b by (metis hd_append2 rev_is_Nil_conv)
  then show "\<not> isspace (hd (strip s))" using ha by (simp add: strip_def)
qed

lemma strip_fixed:
  assumes "s \<noteq> []" "\<not> isspace (hd s)" "\<not> isspace (last s)"
  shows "strip s = s"
proof -
  have 1: "dropWhile isspace s = s" using assms(1,2) by (cases s) auto
  have 2: "dropWhile isspace (rev s) = rev s" using assms(1,3) by (cases s rule: rev_cases) auto
  show ?thesis by (simp add: strip_def 1 2)
qed

lemma strip_idem: "strip (strip s) = strip s"
proof (cases "strip s = []")
  case True then show ?thesis by (simp add: strip_Nil)
next
  case False then show ?thesis by (intro strip_fixed strip_ends)
qed

lemma strip_lead: "\<forall>c\<in>set ws. isspace c \<Longrightarrow> strip (ws @ s) = strip s"
  by (simp add: strip_def dropWhile_lead)

lemma cr_linebreak: "is_linebreak 13"
  by (simp add: is_linebreak_def)

lemma lf_linebreak: "is_linebreak 10"
  by (simp add: is_linebreak_def)

lemma splitlines_from_step:
  assumes "\<not> is_linebreak c" "rest \<noteq> []"
  shows "splitlines_from cur (c # rest) = splitlines_from (cur @ [c]) rest"
proof -
  obtain d ds where r: "rest = d # ds" using assms(2) by (cases rest) auto
  have "c \<noteq> 13" using assms(1) cr_linebreak by blast
  then show ?thesis unfolding r using assms(1) by (simp only: splitlines_from.simps if_False simp_thms)
qed

lemma splitlines_from_text:
  "\<forall>c\<in>set xs. \<not> is_linebreak c \<Longrightarrow> ys \<noteq> [] \<Longrightarrow>
   splitlines_from cur (xs @ ys) = splitlines_from (cur @ xs) ys"
proof (induction xs arbitrary: cur)
  case Nil then show ?case by simp
next
  case (Cons x xs)
  have "splitlines_from cur (x # (xs @ ys)) = splitlines_from (cur @ [x]) (xs @ ys)"
    by (rule splitlines_from_step) (use Cons.prems in auto)
  also have "\<dots> = splitlines_from ((cur @ [x]) @ xs) ys"
    by (rule Cons.IH) (use Cons.prems in auto)
  finally show ?case by simp
qed

lemma splitlines_from_lf:
  "splitlines_from cur (10 # ys) = cur # splitlines_from [] ys"
proof (cases ys)
  case Nil then show ?thesis by (simp add: lf_linebreak)
next
  case (Cons d ds) then show ?thesis by (simp add: lf_linebreak)
qed

lemma splitlines_from_end:
  assumes "\<forall>c\<in>set xs. \<not> is_linebreak c" "xs \<noteq> []"
  shows "splitlines_from cur xs = [cur @ xs]"
proof -
  obtain ys y where xs: "xs = ys @ [y]" using assms(2) by (cases xs rule: rev_cases) auto
  have "splitlines_from cur (ys @ [y]) = splitlines_from (cur @ ys) [y]"
    by (rule splitlines_from_text) (use assms xs in auto)
  also have "\<dots> = [(cur @ ys) @ [y]]" using assms(1) xs by simp
  finally show ?thesis using xs by simp
qed

lemma splitlines_line:
  "\<forall>c\<in>set xs. \<not> is_linebreak c \<Longrightarrow>
   splitlines_from cur (xs @ 10 # ys) = (cur @ xs) # splitlines_from [] ys"
  by (simp add: splitlines_from_text splitlines_from_lf)

section \<open>The renderer on arguments without line breaks\<close>

lemma blanks_space: "\<forall>c\<in>set (lit ''            ''). isspace c"
  by (simp add: lit_def isspace_def)

lemma blanks8_space: "\<forall>c\<in>set (lit ''        ''). isspace c"
  by (simp add: lit_def isspace_def)

lemma render_template_create:
  "render_template (lit ''create'') i a m =
     10 # (lit ''        '' @ lit ''interface '' @ i) @
     10 # (lit ''            '' @ lit ''ip address '' @ a @ lit '' '' @ m) @
     10 # lit ''            no shutdown'' @ 10 # lit ''        ''"
  by (simp add: render_template_def lit_def)

lemma render_template_delete:
  "action \<noteq> lit ''create'' \<Longrightarrow> render_template action i a m =
     10 # (lit ''        '' @ lit ''interface '' @ i) @
     10 # lit ''            no ip address'' @
     10 # lit ''            shutdown'' @ 10 # lit ''        ''"
  by (simp add: render_template_def lit_def)

lemma lit_no_linebreak:
  "\<forall>c\<in>set (lit ''        ''). \<not> is_linebreak c"
  "\<forall>c\<in>set (lit ''interface ''). \<not> is_linebreak c"
  "\<forall>c\<in>set (lit ''            ''). \<not> is_linebreak c"
  "\<forall>c\<in>set (lit ''ip address ''). \<not> is_linebreak c"
  "\<forall>c\<in>set (lit '' ''). \<not> is_linebreak c"
  "\<forall>c\<in>set (lit ''            no shutdown''). \<not> is_linebreak c"
  "\<forall>c\<in>set (lit ''            no ip address''). \<not> is_linebreak c"
  "\<forall>c\<in>set (lit ''            shutdown''). \<not> is_linebreak c"
  by (simp_all add: lit_def is_linebreak_def)

lemma strip_fixed_lines:
  "strip (lit ''            no shutdown'') = lit ''no shutdown''"
  "strip (lit ''            no ip address'') = lit ''no ip address''"
  "strip (lit ''            shutdown'') = lit ''shutdown''"
  "strip (lit ''        '') = []"
  by (simp_all add: lit_def strip_def isspace_def)

lemma splitlines_create:
  assumes "\<forall>c\<in>set i. \<not> is_linebreak c" "\<forall>c\<in>set a. \<not> is_linebreak c" "\<forall>c\<in>set m. \<not> is_linebreak c"
  shows "splitlines (render_template (lit ''create'') i a m) =
    [[], lit ''        '' @ lit ''interface '' @ i,
     lit ''            '' @ lit ''ip address '' @ a @ lit '' '' @ m,
     lit ''            no shutdown'', lit ''        '']"
proof -
  have 1: "\<forall>c\<in>set (lit ''        '' @ lit ''interface '' @ i). \<not> is_linebreak c"
    using assms(1) lit_no_linebreak by auto
  have 2: "\<forall>c\<in>set (lit ''            '' @ lit ''ip address '' @ a @ lit '' '' @ m). \<not> is_linebreak c"
    using assms(2,3) lit_no_linebreak by auto
  have 4: "lit ''        '' \<noteq> []" by (simp add: lit_def)
  show ?thesis
    unfolding splitlines_def render_template_create
    by (simp only: splitlines_from_lf splitlines_line[OF 1] splitlines_line[OF 2]
        splitlines_line[OF lit_no_linebreak(6)] splitlines_from_end[OF lit_no_linebreak(1) 4]
        append_Nil)
qed

lemma splitlines_delete:
  assumes "\<forall>c\<in>set i. \<not> is_linebreak c" "action \<noteq> lit ''create''"
  shows "splitlines (render_template action i a m) =
    [[], lit ''        '' @ lit ''interface '' @ i,
     lit ''            no ip address'', lit ''            shutdown'', lit ''        '']"
proof -
  have 1: "\<forall>c\<in>set (lit ''        '' @ lit ''interface '' @ i). \<not> is_linebreak c"
    using assms(1) lit_no_linebreak by auto
  have 4: "lit ''        '' \<noteq> []" by (simp add: lit_def)
  show ?thesis
    unfolding splitlines_def render_template_delete[OF assms(2)]
    by (simp only: splitlines_from_lf splitlines_line[OF 1] 
        splitlines_line[OF lit_no_linebreak(7)]
        splitlines_line[OF lit_no_linebreak(8)] splitlines_from_end[OF lit_no_linebreak(1) 4]
        append_Nil)
qed

section \<open>Claims about the renderer\<close>

lemmas eval_str = lit_def strip_def isspace_def is_linebreak_def startswith_def split_nl_def
  splitlines_def replace_def

text \<open>
  The first two lines of a rendered list are never blank, and they are the template
  lines as written when the argument at their end is not empty and does not end in
  whitespace.
\<close>

lemma strip_nonempty:
  assumes "x \<in> set s" "\<not> isspace x"
  shows "strip s \<noteq> []"
proof
  assume "strip s = []"
  then have "dropWhile isspace (rev (dropWhile isspace s)) = []" by (simp add: strip_def)
  then have all: "\<forall>c\<in>set (dropWhile isspace s). isspace c"
    by (simp add: dropWhile_eq_Nil_conv)
  have "dropWhile isspace s = []"
  proof (rule ccontr)
    assume n: "dropWhile isspace s \<noteq> []"
    then have "\<not> isspace (hd (dropWhile isspace s))" by (rule hd_dropWhile)
    moreover have "hd (dropWhile isspace s) \<in> set (dropWhile isspace s)" using n by simp
    ultimately show False using all by blast
  qed
  then have "\<forall>c\<in>set s. isspace c" by (simp add: dropWhile_eq_Nil_conv)
  then show False using assms by blast
qed

lemma interface_line_nonempty: "strip (lit ''interface '' @ i) \<noteq> []"
  by (rule strip_nonempty[of 105]) (simp_all add: lit_def isspace_def)

lemma address_line_nonempty: "strip (lit ''ip address '' @ a @ lit '' '' @ m) \<noteq> []"
  by (rule strip_nonempty[of 105]) (simp_all add: lit_def isspace_def)

lemma interface_line_fixed:
  assumes "i \<noteq> []" "\<not> isspace (last i)"
  shows "strip (lit ''interface '' @ i) = lit ''interface '' @ i"
proof (rule strip_fixed)
  show "lit ''interface '' @ i \<noteq> []" using assms by simp
  show "\<not> isspace (hd (lit ''interface '' @ i))" by (simp add: lit_def isspace_def)
  show "\<not> isspace (last (lit ''interface '' @ i))" using assms by simp
qed

lemma address_line_fixed:
  assumes "m \<noteq> []" "\<not> isspace (last m)"
  shows "strip (lit ''ip address '' @ a @ lit '' '' @ m) = lit ''ip address '' @ a @ lit '' '' @ m"
proof (rule strip_fixed)
  show "lit ''ip address '' @ a @ lit '' '' @ m \<noteq> []" using assms by simp
  show "\<not> isspace (hd (lit ''ip address '' @ a @ lit '' '' @ m))" by (simp add: lit_def isspace_def)
  show "\<not> isspace (last (lit ''ip address '' @ a @ lit '' '' @ m))" using assms by simp
qed

text \<open>
  Claim C7, as amended. The renderer copies its arguments into the template before it
  splits the text into lines, so three lines are promised only for arguments without
  line-break characters. For such an interface name, address and mask the create intent
  renders exactly three lines, none of them empty: the trimmed text
  \<open>interface <name>\<close>, the trimmed text \<open>ip address <address> <mask>\<close>, and
  \<open>no shutdown\<close>. The first line is \<open>interface <name>\<close> as written when the name is
  not empty and does not end in whitespace, and so is the second line for the mask.
\<close>

theorem render_create_three_lines:
  assumes "\<forall>c\<in>set interface. \<not> is_linebreak c"
    and "\<forall>c\<in>set ip_address. \<not> is_linebreak c"
    and "\<forall>c\<in>set subnet_mask. \<not> is_linebreak c"
  shows "render_interface_config (lit ''create'') interface ip_address subnet_mask =
           [strip (lit ''interface '' @ interface),
            strip (lit ''ip address '' @ ip_address @ lit '' '' @ subnet_mask),
            lit ''no shutdown''] \<and>
         strip (lit ''interface '' @ interface) \<noteq> [] \<and>
         strip (lit ''ip address '' @ ip_address @ lit '' '' @ subnet_mask) \<noteq> [] \<and>
         (interface \<noteq> [] \<and> \<not> isspace (last interface) \<longrightarrow>
            strip (lit ''interface '' @ interface) = lit ''interface '' @ interface) \<and>
         (subnet_mask \<noteq> [] \<and> \<not> isspace (last subnet_mask) \<longrightarrow>
            strip (lit ''ip address '' @ ip_address @ lit '' '' @ subnet_mask) =
            lit ''ip address '' @ ip_address @ lit '' '' @ subnet_mask)"
proof -
  have n: "lit ''no shutdown'' \<noteq> []" by (simp add: lit_def)
  have "render_interface_config (lit ''create'') interface ip_address subnet_mask =
           [strip (lit ''interface '' @ interface),
            strip (lit ''ip address '' @ ip_address @ lit '' '' @ subnet_mask),
            lit ''no shutdown'']"
    unfolding render_interface_config_def splitlines_create[OF assms]
    using n
    by (simp add: strip_Nil strip_fixed_lines strip_lead[OF blanks8_space]
        strip_lead[OF blanks_space] interface_line_nonempty address_line_nonempty)
  then show ?thesis
    using interface_line_nonempty address_line_nonempty interface_line_fixed address_line_fixed
    by blast
qed

text \<open>
  The theorem at the example of the specification: interface \<open>Gi0/1\<close>, address
  \<open>10.0.0.1\<close>, mask \<open>255.255.255.0\<close>.
\<close>

theorem render_create_three_lines_witness:
  "render_interface_config (lit ''create'') (lit ''Gi0/1'') (lit ''10.0.0.1'')
     (lit ''255.255.255.0'') =
   [lit ''interface Gi0/1'', lit ''ip address 10.0.0.1 255.255.255.0'', lit ''no shutdown'']"
proof -
  have h: "\<forall>c\<in>set (lit ''Gi0/1''). \<not> is_linebreak c"
    "\<forall>c\<in>set (lit ''10.0.0.1''). \<not> is_linebreak c"
    "\<forall>c\<in>set (lit ''255.255.255.0''). \<not> is_linebreak c"
    by (simp_all add: lit_def is_linebreak_def)
  have t: "lit ''Gi0/1'' \<noteq> [] \<and> \<not> isspace (last (lit ''Gi0/1''))"
    "lit ''255.255.255.0'' \<noteq> [] \<and> \<not> isspace (last (lit ''255.255.255.0''))"
    by (simp_all add: lit_def isspace_def)
  have m: "lit ''interface '' @ lit ''Gi0/1'' = lit ''interface Gi0/1''"
    "lit ''ip address '' @ lit ''10.0.0.1'' @ lit '' '' @ lit ''255.255.255.0'' =
     lit ''ip address 10.0.0.1 255.255.255.0''"
    by (simp_all add: lit_def)
  have "render_interface_config (lit ''create'') (lit ''Gi0/1'') (lit ''10.0.0.1'')
     (lit ''255.255.255.0'') =
     [lit ''interface '' @ lit ''Gi0/1'',
      lit ''ip address '' @ lit ''10.0.0.1'' @ lit '' '' @ lit ''255.255.255.0'',
      lit ''no shutdown'']"
    using render_create_three_lines[OF h] t by presburger
  then show ?thesis unfolding m .
qed

text \<open>
  Claim C7 as stated fails: an interface name that is not empty but holds a line feed
  makes the renderer return four lines, the second one the text after the line feed.
\<close>

theorem render_create_line_feed_counterexample:
  "render_interface_config (lit ''create'') (lit ''Gi0/1\<newline>shutdown'') (lit ''10.0.0.1'')
     (lit ''255.255.255.0'') =
   [lit ''interface Gi0/1'', lit ''shutdown'', lit ''ip address 10.0.0.1 255.255.255.0'',
    lit ''no shutdown''] \<and>
   length (render_interface_config (lit ''create'') (lit ''Gi0/1\<newline>shutdown'')
     (lit ''10.0.0.1'') (lit ''255.255.255.0'')) \<noteq> 3"
  by (simp add: render_interface_config_def render_template_def eval_str)

text \<open>
  Claim C8, as amended. For an interface name without line-break characters, every
  action other than \<open>create\<close> renders exactly three lines, none of them empty: the
  trimmed text \<open>interface <name>\<close> (the text as written when the name is not empty
  and does not end in whitespace), \<open>no ip address\<close> and \<open>shutdown\<close>, whatever
  address and mask are passed: the two arguments do not reach the output, whose only
  variable text is the interface name.
\<close>

theorem render_delete_three_lines:
  assumes "\<forall>c\<in>set interface. \<not> is_linebreak c"
    and "action \<noteq> lit ''create''"
  shows "render_interface_config action interface ip_address subnet_mask =
           [strip (lit ''interface '' @ interface), lit ''no ip address'', lit ''shutdown''] \<and>
         strip (lit ''interface '' @ interface) \<noteq> [] \<and>
         (interface \<noteq> [] \<and> \<not> isspace (last interface) \<longrightarrow>
            strip (lit ''interface '' @ interface) = lit ''interface '' @ interface)"
proof -
  have n: "lit ''no ip address'' \<noteq> []" "lit ''shutdown'' \<noteq> []" by (simp_all add: lit_def)
  have "render_interface_config action interface ip_address subnet_mask =
           [strip (lit ''interface '' @ interface), lit ''no ip address'', lit ''shutdown'']"
    unfolding render_interface_config_def splitlines_delete[OF assms]
    using n
    by (simp add: strip_Nil strip_fixed_lines strip_lead[OF blanks8_space]
        interface_line_nonempty)
  then show ?thesis using interface_line_nonempty interface_line_fixed by blast
qed

text \<open>
  The theorem for the action \<open>delete\<close> on interface \<open>Gi0/1\<close>.
\<close>

theorem render_delete_three_lines_witness:
  "render_interface_config (lit ''delete'') (lit ''Gi0/1'') (lit ''10.0.0.1'')
     (lit ''255.255.255.0'') =
   [lit ''interface Gi0/1'', lit ''no ip address'', lit ''shutdown'']"
proof -
  have h: "\<forall>c\<in>set (lit ''Gi0/1''). \<not> is_linebreak c"
    by (simp add: lit_def is_linebreak_def)
  have a: "lit ''delete'' \<noteq> lit ''create''" by (simp add: lit_def)
  have t: "lit ''Gi0/1'' \<noteq> [] \<and> \<not> isspace (last (lit ''Gi0/1''))"
    by (simp add: lit_def isspace_def)
  have m: "lit ''interface '' @ lit ''Gi0/1'' = lit ''interface Gi0/1''"
    by (simp add: lit_def)
  have "render_interface_config (lit ''delete'') (lit ''Gi0/1'') (lit ''10.0.0.1'')
     (lit ''255.255.255.0'') =
     [lit ''interface '' @ lit ''Gi0/1'', lit ''no ip address'', lit ''shutdown'']"
    using render_delete_three_lines[OF h a] t by presburger
  then show ?thesis unfolding m .
qed

text \<open>
  Claim C8 as stated fails: with a line feed in the interface name the delete intent
  renders four lines, and one of them is an address assignment.
\<close>

theorem render_delete_line_feed_counterexample:
  "render_interface_config (lit ''delete'')
     (lit ''Gi0/1\<newline>ip address 10.0.0.1 255.255.255.0'') [] [] =
   [lit ''interface Gi0/1'', lit ''ip address 10.0.0.1 255.255.255.0'', lit ''no ip address'',
    lit ''shutdown''] \<and>
   length (render_interface_config (lit ''delete'')
     (lit ''Gi0/1\<newline>ip address 10.0.0.1 255.255.255.0'') [] []) \<noteq> 3"
  by (simp add: render_interface_config_def render_template_def eval_str)

section \<open>Properties of the sanitizer\<close>

lemma sanitize_loop_map_filter:
  "sanitize_loop lines commands = commands @ List.map_filter clean_line lines"
  by (induction lines arbitrary: commands) (simp_all add: Let_def clean_line_def)

lemma set_replace_from: "set (replace_from old [] s) \<subseteq> set s"
proof (induction old "[] :: pystr" s rule: replace_from.induct)
  case (1 old) show ?case by simp
next
  case (2 old c cs)
  show ?case
  proof (cases "old \<noteq> [] \<and> startswith (c # cs) old")
    case True
    then have "set (replace_from old [] (c # cs)) = set (replace_from old [] (drop (length old) (c # cs)))"
      by simp
    also have "\<dots> \<subseteq> set (drop (length old) (c # cs))" using 2(1) True by blast
    also have "\<dots> \<subseteq> set (c # cs)" by (rule set_drop_subset)
    finally show ?thesis .
  next
    case False
    then have "replace_from old [] (c # cs) = c # replace_from old [] cs" by auto
    then show ?thesis using 2(2) False by auto
  qed
qed

lemma set_replace: "set (replace s old []) \<subseteq> set s"
  by (simp add: replace_def set_replace_from) 

lemma set_strip_prompt: "set (strip_prompt line) \<subseteq> set line"
proof -
  have "set (strip (replace line p [])) \<subseteq> set line" for p
    using set_strip[of "replace line p []"] set_replace[of line p] by (rule subset_trans)
  then show ?thesis by (simp add: strip_prompt_def)
qed

lemma strip_strip_prompt: "strip line = line \<Longrightarrow> strip (strip_prompt line) = strip_prompt line"
  by (simp add: strip_prompt_def strip_idem)

lemma clean_line_Some:
  assumes "clean_line l = Some x"
  shows "x \<noteq> []" and "strip x = x" and "set x \<subseteq> set l"
proof -
  have x: "x = strip_prompt (strip l)" and ne: "x \<noteq> []"
    using assms by (auto simp: clean_line_def Let_def split: if_splits)
  show "x \<noteq> []" by (rule ne)
  show "strip x = x" unfolding x by (rule strip_strip_prompt) (rule strip_idem)
  show "set x \<subseteq> set l" unfolding x using set_strip_prompt set_strip by blast
qed

lemma map_filter_mem:
  "x \<in> set (List.map_filter f xs) \<Longrightarrow> \<exists>y\<in>set xs. f y = Some x"
  by (auto simp: map_filter_def)

lemma split_from_text:
  "10 \<notin> set xs \<Longrightarrow> split_from cur (xs @ ys) = split_from (cur @ xs) ys"
  by (induction xs arbitrary: cur) auto

lemma split_from_lines:
  "10 \<notin> set cur \<Longrightarrow> l \<in> set (split_from cur s) \<Longrightarrow> 10 \<notin> set l"
proof (induction s arbitrary: cur)
  case Nil then show ?case by simp
next
  case (Cons c cs)
  show ?case
  proof (cases "c = 10")
    case True
    then have "l = cur \<or> l \<in> set (split_from [] cs)" using Cons.prems(2) by simp
    then show ?thesis using Cons.prems(1) Cons.IH[of "[]"] by auto
  next
    case False
    then have "l \<in> set (split_from (cur @ [c]) cs)" using Cons.prems(2) by simp
    moreover have "10 \<notin> set (cur @ [c])" using False Cons.prems(1) by simp
    ultimately show ?thesis by (rule Cons.IH[rotated])
  qed
qed

lemma split_from_join:
  "ls \<noteq> [] \<Longrightarrow> \<forall>l\<in>set ls. 10 \<notin> set l \<Longrightarrow>
   split_from cur (join_nl ls) = (cur @ hd ls) # tl ls"
proof (induction ls arbitrary: cur rule: join_nl.induct)
  case 1 then show ?case by simp
next
  case (2 l)
  then have "split_from cur (l @ []) = split_from (cur @ l) []" by (intro split_from_text) simp
  then show ?case by simp
next
  case (3 l m ls)
  have "split_from cur (l @ 10 # join_nl (m # ls)) = split_from (cur @ l) (10 # join_nl (m # ls))"
    by (rule split_from_text) (use 3(3) in simp)
  also have "\<dots> = (cur @ l) # split_from [] (join_nl (m # ls))" by simp
  also have "split_from [] (join_nl (m # ls)) = ([] @ hd (m # ls)) # tl (m # ls)"
    by (rule 3(1)) (use 3(3) in auto)
  finally show ?case by simp
qed

lemma split_nl_join:
  "ls \<noteq> [] \<Longrightarrow> \<forall>l\<in>set ls. 10 \<notin> set l \<Longrightarrow> split_nl (join_nl ls) = ls"
  by (simp add: split_nl_def split_from_join)

lemma hd_join_nl: "ls \<noteq> [] \<Longrightarrow> hd ls \<noteq> [] \<Longrightarrow> hd (join_nl ls) = hd (hd ls)"
  by (induction ls rule: join_nl.induct) auto

lemma join_nl_nonempty_last: "ls \<noteq> [] \<Longrightarrow> last ls \<noteq> [] \<Longrightarrow> join_nl ls \<noteq> []"
  by (induction ls rule: join_nl.induct) auto

lemma last_join_nl: "ls \<noteq> [] \<Longrightarrow> last ls \<noteq> [] \<Longrightarrow> last (join_nl ls) = last (last ls)"
proof (induction ls rule: join_nl.induct)
  case 1 then show ?case by simp
next
  case (2 l) then show ?case by simp
next
  case (3 l m ls)
  have "join_nl (m # ls) \<noteq> []" by (rule join_nl_nonempty_last) (use 3(3) in auto)
  then have "last (join_nl (l # m # ls)) = last (join_nl (m # ls))" by simp
  also have "\<dots> = last (last (m # ls))" by (rule 3(1)) (use 3(3) in auto)
  finally show ?case by simp
qed

lemma join_nl_nonempty: "ls \<noteq> [] \<Longrightarrow> hd ls \<noteq> [] \<Longrightarrow> join_nl ls \<noteq> []"
  by (induction ls rule: join_nl.induct) auto

lemma trimmed_ends:
  assumes "l \<noteq> []" "strip l = l"
  shows "\<not> isspace (hd l)" and "\<not> isspace (last l)"
  using strip_ends[of l] assms by auto

lemma clean_line_plain:
  assumes "l \<noteq> []" "strip l = l" "plain_line l"
  shows "clean_line l = Some l"
  using assms by (simp add: clean_line_def plain_line_def strip_prompt_def Let_def)

lemma map_filter_id:
  "\<forall>l\<in>set ls. f l = Some l \<Longrightarrow> List.map_filter f ls = ls"
  by (induction ls) simp_all

section \<open>Claims about the sanitizer\<close>

lemmas eval_san = process_generated_config_def strip_prompt_def eval_str

text \<open>
  Every line the sanitizer returns is not empty, is its own trim and holds no line feed.
\<close>

lemma sanitizer_lines:
  assumes "l \<in> set (process_generated_config config)"
  shows "l \<noteq> []" and "strip l = l" and "10 \<notin> set l"
proof -
  from assms have ne: "config \<noteq> []" by (auto simp: process_generated_config_def)
  with assms have "l \<in> set (List.map_filter clean_line (split_nl (strip config)))"
    by (simp add: process_generated_config_def sanitize_loop_map_filter)
  then obtain y where y: "y \<in> set (split_nl (strip config))" "clean_line y = Some l"
    by (auto dest: map_filter_mem)
  show "l \<noteq> []" "strip l = l" using clean_line_Some[OF y(2)] by auto
  have "10 \<notin> set y" using split_from_lines[of "[]" y "strip config"] y(1)
    by (simp add: split_nl_def)
  then show "10 \<notin> set l" using clean_line_Some(3)[OF y(2)] by auto
qed

text \<open>
  Claim C9. Every line of a command list returned by the renderer or by the sanitizer is
  not empty and equal to its own trim, for every input. Both results keep the order of
  the source lines: the renderer's is the list of the trimmed non-blank lines of the
  rendered template, the sanitizer's is the list of what each line of the trimmed input
  contributes (\<open>clean_line\<close>), in the order of the lines.
\<close>

theorem command_list_invariant:
  "(\<forall>l\<in>set (render_interface_config action interface ip_address subnet_mask).
      l \<noteq> [] \<and> strip l = l) \<and>
   (\<forall>l\<in>set (process_generated_config config). l \<noteq> [] \<and> strip l = l) \<and>
   render_interface_config action interface ip_address subnet_mask =
     List.map_filter (\<lambda>line. if strip line \<noteq> [] then Some (strip line) else None)
       (splitlines (render_template action interface ip_address subnet_mask)) \<and>
   process_generated_config config =
     (if config = [] then [] else List.map_filter clean_line (split_nl (strip config)))"
proof (intro conjI ballI)
  fix l assume "l \<in> set (render_interface_config action interface ip_address subnet_mask)"
  then obtain y where "l = strip y" "strip y \<noteq> []"
    by (auto simp: render_interface_config_def)
  then show "l \<noteq> []" "strip l = l" by (simp_all add: strip_idem)
next
  fix l assume "l \<in> set (process_generated_config config)"
  then show "l \<noteq> []" "strip l = l" by (rule sanitizer_lines)+
next
  have "List.map_filter (\<lambda>line. if strip line \<noteq> [] then Some (strip line) else None) xs =
        map strip (filter (\<lambda>line. strip line \<noteq> []) xs)" for xs
    by (induction xs) simp_all
  then show "render_interface_config action interface ip_address subnet_mask =
     List.map_filter (\<lambda>line. if strip line \<noteq> [] then Some (strip line) else None)
       (splitlines (render_template action interface ip_address subnet_mask))"
    by (simp add: render_interface_config_def)
next
  show "process_generated_config config =
     (if config = [] then [] else List.map_filter clean_line (split_nl (strip config)))"
    by (simp add: process_generated_config_def sanitize_loop_map_filter)
qed

text \<open>
  The invariant at a generated text of three lines, the second a comment: the two
  commands returned are trimmed.
\<close>

theorem command_list_invariant_witness:
  "process_generated_config (lit ''  Router(config)# interface Gi0/1 \<newline>! note\<newline> no shutdown'') =
     [lit ''interface Gi0/1'', lit ''no shutdown''] \<and>
   strip (lit ''interface Gi0/1'') = lit ''interface Gi0/1'' \<and>
   strip (lit ''no shutdown'') = lit ''no shutdown''"
proof -
  let ?c = "lit ''  Router(config)# interface Gi0/1 \<newline>! note\<newline> no shutdown''"
  have e: "process_generated_config ?c = [lit ''interface Gi0/1'', lit ''no shutdown'']"
    by (simp add: eval_san)
  have "\<forall>l\<in>set (process_generated_config ?c). l \<noteq> [] \<and> strip l = l"
    using command_list_invariant[of _ _ _ _ ?c] by blast
  then have "strip (lit ''interface Gi0/1'') = lit ''interface Gi0/1'' \<and>
      strip (lit ''no shutdown'') = lit ''no shutdown''"
    unfolding e by simp
  with e show ?thesis by blast
qed

text \<open>
  Claim C6, as amended. The sanitizer removes a prompt once for each line and does not
  look at what is left, so a second pass can change the result. When no line of the
  first result starts with \<open>#\<close>, \<open>!\<close> or one of the three prompts, sanitizing the
  lines joined by line feeds returns the first result unchanged.
\<close>

theorem sanitize_idempotent_on_plain_output:
  assumes "\<forall>l\<in>set (process_generated_config rawText). plain_line l"
  shows "process_generated_config (join_nl (process_generated_config rawText)) =
         process_generated_config rawText"
proof (cases "process_generated_config rawText = []")
  case True
  then show ?thesis by (simp add: process_generated_config_def)
next
  case False
  let ?ls = "process_generated_config rawText"
  have hd_in: "hd ?ls \<in> set ?ls" and last_in: "last ?ls \<in> set ?ls" using False by simp_all
  have hne: "hd ?ls \<noteq> []" and lne: "last ?ls \<noteq> []"
    using sanitizer_lines(1) hd_in last_in by blast+
  have j: "join_nl ?ls \<noteq> []" using False hne by (rule join_nl_nonempty)
  have "\<not> isspace (hd (join_nl ?ls))"
    using trimmed_ends(1)[OF hne sanitizer_lines(2)[OF hd_in]] hd_join_nl[OF False hne] by simp
  moreover have "\<not> isspace (last (join_nl ?ls))"
    using trimmed_ends(2)[OF lne sanitizer_lines(2)[OF last_in]] last_join_nl[OF False lne] by simp
  ultimately have s: "strip (join_nl ?ls) = join_nl ?ls" using j by (intro strip_fixed)
  have sp: "split_nl (join_nl ?ls) = ?ls"
    by (rule split_nl_join[OF False]) (use sanitizer_lines(3) in blast)
  have "\<forall>l\<in>set ?ls. clean_line l = Some l"
    using assms sanitizer_lines(1,2) clean_line_plain by blast
  then have "List.map_filter clean_line ?ls = ?ls" by (rule map_filter_id)
  then show ?thesis
    using j by (simp add: process_generated_config_def[of "join_nl ?ls"] s sp sanitize_loop_map_filter)
qed

text \<open>
  The amended claim at a generated text of two lines, the first behind a prompt.
\<close>

theorem sanitize_idempotent_on_plain_output_witness:
  "process_generated_config (lit ''Router(config)#interface Gi0/1\<newline> no shutdown '') =
     [lit ''interface Gi0/1'', lit ''no shutdown''] \<and>
   process_generated_config (join_nl (process_generated_config
     (lit ''Router(config)#interface Gi0/1\<newline> no shutdown ''))) =
   process_generated_config (lit ''Router(config)#interface Gi0/1\<newline> no shutdown '')"
proof -
  let ?c = "lit ''Router(config)#interface Gi0/1\<newline> no shutdown ''"
  have e: "process_generated_config ?c = [lit ''interface Gi0/1'', lit ''no shutdown'']"
    by (simp add: eval_san)
  have h: "\<forall>l\<in>set (process_generated_config ?c). plain_line l"
    unfolding e by (simp add: plain_line_def lit_def startswith_def)
  show ?thesis using e sanitize_idempotent_on_plain_output[OF h] by blast
qed

text \<open>
  Claim C6 as stated fails: the text behind a prompt may start with a comment marker.
  The first pass returns the line \<open>! uplink\<close>, the second pass drops it.
\<close>

theorem sanitize_not_idempotent_counterexample:
  "process_generated_config (join_nl (process_generated_config (lit ''Router(config)#! uplink''))) \<noteq>
   process_generated_config (lit ''Router(config)#! uplink'')"
proof -
  have e: "process_generated_config (lit ''Router(config)#! uplink'') = [lit ''! uplink'']"
    by (simp add: eval_san)
  have "process_generated_config (join_nl [lit ''! uplink'']) = []"
    by (simp add: eval_san)
  then show ?thesis unfolding e by (simp add: lit_def)
qed

text \<open>
  Claim C1. The loop body removes a prompt with \<open>str.replace\<close>, which removes every
  occurrence in the line and not only the one at its start: on the line
  \<open>Router(config)#description uplink to Router(config)#core\<close> the second occurrence, which
  the claim says is left unchanged, is removed with the first.
\<close>

theorem sanitizer_removes_inner_prompt:
  "process_generated_config (lit ''Router(config)#description uplink to Router(config)#core'') =
   [lit ''description uplink to core'']"
  by (simp add: eval_san)

text \<open>
  The three examples of claim C1 hold on the code: a prompt at the start of the line is
  removed, a comment is dropped, and the empty text gives the empty list.
\<close>

theorem sanitizer_examples:
  "process_generated_config (lit ''Router(config)#interface Gi0/1'') = [lit ''interface Gi0/1''] \<and>
   process_generated_config (lit ''# comment'') = [] \<and>
   process_generated_config (lit '''') = []"
  by (simp add: eval_san)

section \<open>Claims about the session gateway and the deployment\<close>

text \<open>
  The three readings of a trace distribute over its concatenation, and connecting
  neither sends commands nor disconnects.
\<close>

lemma sent_append: "sent (xs @ ys) = sent xs @ sent ys"
  by (induction xs rule: sent.induct) simp_all

lemma closes_append: "closes (xs @ ys) = closes xs + closes ys"
  by (induction xs rule: closes.induct) simp_all

lemma prompts_append: "prompts (xs @ ys) = prompts xs @ prompts ys"
  by (induction xs rule: prompts.induct) simp_all

lemma connect_device_quiet:
  "sent (fst (connect_device T device)) = []" "closes (fst (connect_device T device)) = 0"
  by (simp_all add: connect_device_def connect_error_def split: option.splits exn.splits)

lemma establish_connection_quiet:
  "sent (fst (establish_connection T device_data)) = []"
  "closes (fst (establish_connection T device_data)) = 0"
  by (simp_all add: establish_connection_def connect_device_quiet split: sum.splits)

text \<open>
  Claim C4. When the session cannot be opened (\<open>connect_device\<close> returns \<open>None\<close>),
  \<open>send_config\<close> returns the text \<open>Connection failed; configuration not sent.\<close> and
  \<open>send_config_set\<close> is not called; \<open>send_commands\<close> without a connection returns the
  failure \<open>No active connection\<close> and causes no event at all; and
  \<open>deploy_configuration\<close> returns \<open>False\<close> without sending anything.
\<close>

theorem open_failure_sends_nothing:
  "(snd (connect_device T device) = Inr None \<longrightarrow>
      snd (send_config T device commands) =
        Inr (lit ''Connection failed; configuration not sent.'') \<and>
      sent (fst (send_config T device commands)) = []) \<and>
   send_commands T None commands =
     ([], Inr \<lparr>success = False, output_text = None,
              error_text = Some (lit ''No active connection'')\<rparr>) \<and>
   (snd (establish_connection T device_data) = Inr None \<longrightarrow>
      snd (deploy_configuration T device_data commands) = Inr False \<and>
      sent (fst (deploy_configuration T device_data commands)) = [])"
proof (intro conjI impI)
  assume a: "snd (connect_device T device) = Inr None"
  then obtain evs where c: "connect_device T device = (evs, Inr None)"
    by (cases "connect_device T device") auto
  show "snd (send_config T device commands) =
        Inr (lit ''Connection failed; configuration not sent.'')"
    by (simp add: send_config_def c)
  show "sent (fst (send_config T device commands)) = []"
    using connect_device_quiet(1)[of T device] by (simp add: send_config_def c)
next
  show "send_commands T None commands =
     ([], Inr \<lparr>success = False, output_text = None,
              error_text = Some (lit ''No active connection'')\<rparr>)"
    by (simp add: send_commands_def)
next
  assume a: "snd (establish_connection T device_data) = Inr None"
  then obtain evs where c: "establish_connection T device_data = (evs, Inr None)"
    by (cases "establish_connection T device_data") auto
  show "snd (deploy_configuration T device_data commands) = Inr False"
    by (simp add: deploy_configuration_def c)
  show "sent (fst (deploy_configuration T device_data commands)) = []"
    using establish_connection_quiet(1)[of T device_data]
    by (simp add: deploy_configuration_def c sent_append)
qed

text \<open>
  The connection parameters of the inventory row of device R1.
\<close>

lemma r1_conn_info: "get_conn_info (inventory_row (lit ''R1'') (lit ''10.0.0.1'')) = Inr r1_conn"
  by (simp add: get_conn_info_def getitem_def inventory_row_def r1_conn_def lit_def)

text \<open>
  Claim C4 on the transport that cannot connect: one command to deploy, none sent.
\<close>

theorem open_failure_sends_nothing_witness:
  "snd (send_config stub_open_fails r1_conn [lit ''interface Gi0/1'']) =
     Inr (lit ''Connection failed; configuration not sent.'') \<and>
   sent (fst (send_config stub_open_fails r1_conn [lit ''interface Gi0/1''])) = [] \<and>
   snd (deploy_configuration stub_open_fails (inventory_row (lit ''R1'') (lit ''10.0.0.1''))
     [lit ''interface Gi0/1'']) = Inr False \<and>
   sent (fst (deploy_configuration stub_open_fails (inventory_row (lit ''R1'') (lit ''10.0.0.1''))
     [lit ''interface Gi0/1''])) = []"
proof -
  have 1: "snd (connect_device stub_open_fails r1_conn) = Inr None"
    by (simp add: connect_device_def stub_open_fails_def)
  have 2: "snd (establish_connection stub_open_fails (inventory_row (lit ''R1'') (lit ''10.0.0.1''))) = Inr None"
    by (simp add: establish_connection_def r1_conn_info 1)
  show ?thesis
    using open_failure_sends_nothing[of stub_open_fails r1_conn "[lit ''interface Gi0/1'']"
        "inventory_row (lit ''R1'') (lit ''10.0.0.1'')"] 1 2
    by blast
qed

text \<open>
  Claim C2, as amended. Neither \<open>send_config\<close> nor \<open>send_commands\<close> looks at the
  command list before it calls the transport. Whenever the session opens, deploying
  the empty list calls \<open>send_config_set\<close> exactly once, with the empty list, whatever
  that call and \<open>disconnect\<close> do afterwards; so does \<open>deploy_configuration\<close>. When the
  call returns the text \<open>out\<close> (and \<open>disconnect\<close> returns), \<open>send_config\<close> returns
  \<open>out\<close>, and \<open>send_commands\<close> reports success with the output \<open>out\<close>.
\<close>

theorem empty_command_list_is_sent:
  assumes "snd (connect_device T device) = Inr (Some conn)"
  shows "sent (fst (send_config T device [])) = [[]] \<and>
         sent (fst (send_commands T (Some conn) [])) = [[]] \<and>
         (send_config_set T conn [] = Inr out \<and> disconnect T conn = None \<longrightarrow>
            snd (send_config T device []) = Inr out) \<and>
         (send_config_set T conn [] = Inr out \<longrightarrow>
            snd (send_commands T (Some conn) []) =
              Inr \<lparr>success = True, output_text = Some out, error_text = None\<rparr>) \<and>
         (snd (establish_connection T device_data) = Inr (Some conn) \<longrightarrow>
            sent (fst (deploy_configuration T device_data [])) = [[]])"
proof (intro conjI impI)
  obtain evs where c: "connect_device T device = (evs, Inr (Some conn))"
    using assms(1) by (cases "connect_device T device") auto
  have q: "sent evs = []" using connect_device_quiet(1)[of T device] c by simp
  show "sent (fst (send_config T device [])) = [[]]"
    by (simp add: send_config_def c Let_def sent_append q)
  show "sent (fst (send_commands T (Some conn) [])) = [[]]"
    by (simp add: send_commands_def)
  show "snd (send_config T device []) = Inr out"
    if "send_config_set T conn [] = Inr out \<and> disconnect T conn = None"
    using that by (simp add: send_config_def c)
  show "snd (send_commands T (Some conn) []) =
      Inr \<lparr>success = True, output_text = Some out, error_text = None\<rparr>"
    if "send_config_set T conn [] = Inr out"
    using that by (simp add: send_commands_def)
  show "sent (fst (deploy_configuration T device_data [])) = [[]]"
    if e: "snd (establish_connection T device_data) = Inr (Some conn)"
  proof -
    obtain evs' where e': "establish_connection T device_data = (evs', Inr (Some conn))"
      using e by (cases "establish_connection T device_data") auto
    have q': "sent evs' = []" using establish_connection_quiet(1)[of T device_data] e' by simp
    show ?thesis
      by (simp add: deploy_configuration_def e' send_commands_def sent_append q'
          split: sum.splits exn.splits option.splits)
  qed
qed

text \<open>
  The amended claim on the transport on which every call succeeds, and on the one
  whose \<open>send_config_set\<close> raises: the empty list is sent on both.
\<close>

theorem empty_command_list_is_sent_witness:
  "sent (fst (send_config stub_ok r1_conn [])) = [[]] \<and>
   snd (send_config stub_ok r1_conn []) = Inr (lit ''R1(config)#end'') \<and>
   snd (send_commands stub_ok (Some r1_conn) []) =
     Inr \<lparr>success = True, output_text = Some (lit ''R1(config)#end''), error_text = None\<rparr> \<and>
   sent (fst (send_config stub_apply_fails r1_conn [])) = [[]] \<and>
   sent (fst (send_commands stub_apply_fails (Some r1_conn) [])) = [[]]"
proof -
  have 1: "snd (connect_device stub_ok r1_conn) = Inr (Some r1_conn)"
    by (simp add: connect_device_def stub_ok_def)
  have 2: "send_config_set stub_ok r1_conn [] = Inr (lit ''R1(config)#end'')"
    by (simp add: stub_ok_def)
  have 3: "disconnect stub_ok r1_conn = None" by (simp add: stub_ok_def)
  have 4: "snd (connect_device stub_apply_fails r1_conn) = Inr (Some r1_conn)"
    by (simp add: connect_device_def stub_apply_fails_def)
  show ?thesis
    using empty_command_list_is_sent[OF 1, of "lit ''R1(config)#end''"] 2 3
      empty_command_list_is_sent[OF 4]
    by blast
qed

text \<open>
  Claim C2 as stated fails: on a transport that answers every call, deploying the empty
  list does call \<open>send_config_set\<close>, and the output is what the transport returned.
\<close>

theorem empty_command_list_counterexample:
  "sent (fst (send_config stub_ok r1_conn [])) = [[]] \<and>
   sent (fst (send_config stub_ok r1_conn [])) \<noteq> [] \<and>
   snd (send_config stub_ok r1_conn []) \<noteq> Inr []"
  by (simp add: send_config_def connect_device_def stub_ok_def lit_def)

text \<open>
  Claim C3. \<open>deploy_configuration\<close> opens a session with \<open>establish_connection\<close>, sends
  the commands with \<open>send_commands\<close> and returns without a call of \<open>disconnect\<close>. On
  the transport whose \<open>send_config_set\<close> raises, the result is \<open>False\<close> and the session
  is left open; it is left open after a successful deployment as well. \<open>send_config\<close>,
  the other deployment path, does close the session, as shown after this theorem.
\<close>

theorem deploy_configuration_never_disconnects:
  "deploy_configuration stub_apply_fails (inventory_row (lit ''R1'') (lit ''10.0.0.1''))
     [lit ''interface Gi0/1''] =
   ([Connect r1_conn, Enable r1_conn, Send_config_set r1_conn [lit ''interface Gi0/1''],
     Print (lit ''Configuration deployment failed: Socket is closed'')], Inr False) \<and>
   closes (fst (deploy_configuration stub_apply_fails (inventory_row (lit ''R1'') (lit ''10.0.0.1''))
     [lit ''interface Gi0/1''])) = 0 \<and>
   closes (fst (deploy_configuration stub_ok (inventory_row (lit ''R1'') (lit ''10.0.0.1''))
     [lit ''interface Gi0/1''])) = 0"
proof -
  have e: "establish_connection T (inventory_row (lit ''R1'') (lit ''10.0.0.1'')) =
      ([Connect r1_conn, Enable r1_conn], Inr (Some r1_conn))"
    if "connect_handler T = (\<lambda>d. None)" "enable T = (\<lambda>c. None)" for T
    by (simp add: establish_connection_def r1_conn_info connect_device_def that)
  have m: "lit ''Configuration deployment failed: '' @ lit ''Socket is closed'' =
      lit ''Configuration deployment failed: Socket is closed''"
    by (simp add: lit_def)
  have 1: "establish_connection stub_apply_fails (inventory_row (lit ''R1'') (lit ''10.0.0.1'')) =
      ([Connect r1_conn, Enable r1_conn], Inr (Some r1_conn))"
    by (rule e) (simp_all add: stub_apply_fails_def)
  have 2: "establish_connection stub_ok (inventory_row (lit ''R1'') (lit ''10.0.0.1'')) =
      ([Connect r1_conn, Enable r1_conn], Inr (Some r1_conn))"
    by (rule e) (simp_all add: stub_ok_def)
  have 3: "send_config_set stub_apply_fails = (\<lambda>c cmds. Inl (Exception (lit ''Socket is closed'')))"
    by (simp add: stub_apply_fails_def)
  have 4: "send_config_set stub_ok = (\<lambda>c cmds. Inr (lit ''R1(config)#end''))"
    by (simp add: stub_ok_def)
  have 5: "lit ''R1(config)#end'' \<noteq> []" by (simp add: lit_def)
  show ?thesis
    by (simp add: deploy_configuration_def 1 2 3 4 5 m send_commands_def)
qed

text \<open>
  \<open>send_config\<close> closes the session it opened exactly once, as the last event before it
  returns, on every path: whether \<open>send_config_set\<close> returns, raises an \<open>Exception\<close>
  (reported as the text \<open>Error sending configuration: ...\<close>) or raises something that
  \<open>except Exception\<close> does not catch (which then leaves the function).
\<close>

theorem send_config_closes_once:
  assumes "snd (connect_device T device) = Inr (Some conn)"
  shows "closes (fst (send_config T device commands)) = 1 \<and>
         fst (send_config T device commands) =
           fst (connect_device T device) @ [Send_config_set conn commands, Disconnect conn] \<and>
         (send_config_set T conn commands = Inl (Exception e) \<and> disconnect T conn = None \<longrightarrow>
            snd (send_config T device commands) =
              Inr (lit ''Error sending configuration: '' @ e)) \<and>
         (send_config_set T conn commands = Inl (BaseException e) \<and> disconnect T conn = None \<longrightarrow>
            snd (send_config T device commands) = Inl (BaseException e))"
proof -
  obtain evs where c: "connect_device T device = (evs, Inr (Some conn))"
    using assms(1) by (cases "connect_device T device") auto
  have q: "closes evs = 0" using connect_device_quiet(2)[of T device] c by simp
  show ?thesis by (simp add: send_config_def c closes_append q Let_def)
qed

text \<open>
  \<open>send_config\<close> on the transport whose \<open>send_config_set\<close> raises.
\<close>

theorem send_config_closes_once_witness:
  "closes (fst (send_config stub_apply_fails r1_conn [lit ''interface Gi0/1''])) = 1 \<and>
   snd (send_config stub_apply_fails r1_conn [lit ''interface Gi0/1'']) =
     Inr (lit ''Error sending configuration: Socket is closed'')"
proof -
  have 1: "snd (connect_device stub_apply_fails r1_conn) = Inr (Some r1_conn)"
    by (simp add: connect_device_def stub_apply_fails_def)
  have 2: "send_config_set stub_apply_fails r1_conn [lit ''interface Gi0/1''] =
      Inl (Exception (lit ''Socket is closed''))" "disconnect stub_apply_fails r1_conn = None"
    by (simp_all add: stub_apply_fails_def)
  have m: "lit ''Error sending configuration: '' @ lit ''Socket is closed'' =
      lit ''Error sending configuration: Socket is closed''"
    by (simp add: lit_def)
  have a: "closes (fst (send_config stub_apply_fails r1_conn [lit ''interface Gi0/1''])) = 1"
    and b: "snd (send_config stub_apply_fails r1_conn [lit ''interface Gi0/1'']) =
      Inr (lit ''Error sending configuration: '' @ lit ''Socket is closed'')"
    using send_config_closes_once[OF 1, of "[lit ''interface Gi0/1'']" "lit ''Socket is closed''"] 2
    by blast+
  show ?thesis using a b unfolding m by blast
qed

section \<open>Claims about the backend and the driver\<close>

text \<open>
  \<open>query_ollama\<close> returns a value for every outcome of the request.
\<close>

lemma query_ollama_returns: "\<exists>v. snd (query_ollama post prompt) = Inr v"
  by (simp add: query_ollama_def ollama_request_def split: http_outcome.splits option.splits)



text \<open>
  The loop over a concatenated inventory: the first part runs, and unless it raised
  the second part continues from the state it left.
\<close>

lemma main_loop_append:
  "main_loop E req (xs @ ys) s =
     (case main_loop E req xs s of
        (evs, Inl e) \<Rightarrow> (evs, Inl e)
      | (evs, Inr s') \<Rightarrow> (evs @ fst (main_loop E req ys s'), snd (main_loop E req ys s')))"
proof (induction xs arbitrary: s)
  case Nil show ?case by simp
next
  case (Cons x xs)
  show ?case
  proof (cases "process_device E req x s")
    case (Pair evs r)
    show ?thesis
    proof (cases r)
      case (Inl e) then show ?thesis using Pair by simp
    next
      case (Inr s')
      then show ?thesis using Pair Cons.IH[of s']
        by (simp split: prod.splits sum.splits)
    qed
  qed
qed

text \<open>
  An exception of the request, or an answer that is text starting with \<open>Error\<close>, reaches
  \<open>generate_device_config\<close> as a text that starts with \<open>Error\<close>.
\<close>

lemma reported_error_text:
  assumes "r = Post_raises e \<or> r = Status_raises e \<or> r = Json_raises e \<or>
           r = Json_not_dict e \<or> (r = Json_dict (Some (Text t)) \<and> startswith t (lit ''Error''))"
  shows "\<exists>t'. ollama_request r = Inr (Text t') \<and> startswith t' (lit ''Error'') \<or>
              ollama_request r = Inl (Exception e) \<and>
              startswith (lit ''Error communicating with Ollama: '' @ e) (lit ''Error'')"
proof -
  have "startswith (lit ''Error communicating with Ollama: '' @ e) (lit ''Error'')"
    by (simp add: startswith_def lit_def)
  then show ?thesis using assms by (auto simp: ollama_request_def)
qed

text \<open>
  A device for which the request raises or answers with a text starting with \<open>Error\<close>:
  the loop body returns without asking for a confirmation, its last line being the
  completion message.
\<close>

lemma process_device_failed:
  assumes "backend E n (build_prompt device_data requirements) = r"
    and "r = Post_raises e \<or> r = Status_raises e \<or> r = Json_raises e \<or>
         r = Json_not_dict e \<or> (r = Json_dict (Some (Text t)) \<and> startswith t (lit ''Error''))"
  shows "\<exists>evd. process_device E requirements device_data (n, k) = (evd, Inr (Suc n, k)) \<and>
           prompts evd = [] \<and>
           last evd = Print (lit ''\<newline>Completed processing for '' @
                        dict_get device_data (lit ''Name'') (lit ''Unknown''))"
proof -
  obtain t' where
    q: "query_ollama (backend E n) (build_prompt device_data requirements) =
      ([Post (build_prompt device_data requirements)], Inr (Text t'))"
    and t: "startswith t' (lit ''Error'')"
    using reported_error_text[OF assms(2)] assms(1)
    by (auto simp: query_ollama_def)
  show ?thesis
    by (simp add: process_device_def generate_device_config_def Let_def q t prompts_append)
qed

text \<open>
  Claim C5, as amended. Let the driver have reached a device (the records before it were
  processed without an exception) and let the request to the backend for this device
  raise (\<open>requests.post\<close>, \<open>raise_for_status\<close>, \<open>response.json\<close> or \<open>result.get\<close>) or
  answer with a text that starts with \<open>Error\<close>. Then the body of the loop returns
  normally for it, shows no confirmation prompt (the step that precedes deployment is
  skipped), ends with the completion message, and the loop goes on with the records
  after it, from the next request number: the trace of the run is the trace of the
  records before, of the failed device, and of the records after, and the run ends as
  the run over the records after it ends.
\<close>

theorem generation_failure_does_not_stop_the_run:
  assumes "snd (main_loop E requirements pre s) = Inr (n, k)"
    and "backend E n (build_prompt device_data requirements) = r"
    and "r = Post_raises e \<or> r = Status_raises e \<or> r = Json_raises e \<or>
         r = Json_not_dict e \<or> (r = Json_dict (Some (Text t)) \<and> startswith t (lit ''Error''))"
  shows "\<exists>evd. process_device E requirements device_data (n, k) = (evd, Inr (Suc n, k)) \<and>
           prompts evd = [] \<and>
           last evd = Print (lit ''\<newline>Completed processing for '' @
                        dict_get device_data (lit ''Name'') (lit ''Unknown'')) \<and>
           main_loop E requirements (pre @ device_data # post) s =
             (fst (main_loop E requirements pre s) @ evd @
                fst (main_loop E requirements post (Suc n, k)),
              snd (main_loop E requirements post (Suc n, k)))"
proof -
  obtain evd where d: "process_device E requirements device_data (n, k) = (evd, Inr (Suc n, k))"
    and p: "prompts evd = []"
    and l: "last evd = Print (lit ''\<newline>Completed processing for '' @
                        dict_get device_data (lit ''Name'') (lit ''Unknown''))"
    using process_device_failed[OF assms(2,3)] by blast
  obtain evs where m: "main_loop E requirements pre s = (evs, Inr (n, k))"
    using assms(1) by (cases "main_loop E requirements pre s") auto
  have "main_loop E requirements (pre @ device_data # post) s =
             (evs @ evd @ fst (main_loop E requirements post (Suc n, k)),
              snd (main_loop E requirements post (Suc n, k)))"
    by (simp add: main_loop_append m d split: prod.splits)
  then show ?thesis using d p l m by auto
qed

text \<open>
  A device for which the backend answers with commands: the driver asks for the
  confirmation and goes on.
\<close>

lemma process_device_text:
  assumes "backend E n (build_prompt d req) = Json_dict (Some (Text t))"
    and "\<not> startswith t (lit ''Error'')" and "t \<noteq> []"
    and "process_generated_config t \<noteq> []"
  shows "snd (process_device E req d (n, k)) = Inr (Suc n, Suc k)"
  using assms
  by (simp add: process_device_def generate_device_config_def query_ollama_def
      ollama_request_def Let_def)

lemma snd_main_loop_single:
  "snd (main_loop E req [d] s) = snd (process_device E req d s)"
  by (simp split: prod.splits sum.splits)

text \<open>
  The amended claim on three devices, the request for the second of which times out:
  the run makes its three requests and asks for two confirmations (it started with one
  line read, the requirement).
\<close>

theorem generation_failure_does_not_stop_the_run_witness:
  "backend stub_env 1 (build_prompt (inventory_row (lit ''R2'') (lit ''10.0.0.2''))
      (lit ''enable Gi0/1'')) = Post_raises (lit ''Read timed out.'') \<and>
   snd (main_loop stub_env (lit ''enable Gi0/1'')
          [inventory_row (lit ''R1'') (lit ''10.0.0.1''),
           inventory_row (lit ''R2'') (lit ''10.0.0.2''),
           inventory_row (lit ''R3'') (lit ''10.0.0.3'')] (0, 1)) = Inr (3, 3)"
proof -
  let ?req = "lit ''enable Gi0/1''"
  let ?t = "lit ''interface Gi0/1\<newline> no shutdown''"
  let ?r1 = "inventory_row (lit ''R1'') (lit ''10.0.0.1'')"
  let ?r2 = "inventory_row (lit ''R2'') (lit ''10.0.0.2'')"
  let ?r3 = "inventory_row (lit ''R3'') (lit ''10.0.0.3'')"
  have b: "backend stub_env n p = Json_dict (Some (Text ?t))" if "n \<noteq> 1" for n p
    using that by (simp add: stub_env_def)
  have t1: "\<not> startswith ?t (lit ''Error'')" by (simp add: startswith_def lit_def)
  have t2: "?t \<noteq> []" by (simp add: lit_def)
  have t3: "process_generated_config ?t \<noteq> []"
    by (simp add: process_generated_config_def strip_prompt_def eval_str)
  have p1: "snd (process_device stub_env ?req ?r1 (0, 1)) = Inr (Suc 0, Suc 1)"
    by (rule process_device_text[OF b t1 t2 t3]) simp
  have h1: "snd (main_loop stub_env ?req [?r1] (0, 1)) = Inr (Suc 0, Suc 1)"
    by (simp only: snd_main_loop_single p1)
  have h2: "backend stub_env (Suc 0) (build_prompt ?r2 ?req) = Post_raises (lit ''Read timed out.'')"
    by (simp add: stub_env_def)
  have p3: "snd (process_device stub_env ?req ?r3 (Suc (Suc 0), Suc 1)) =
      Inr (Suc (Suc (Suc 0)), Suc (Suc 1))"
    by (rule process_device_text[OF b t1 t2 t3]) simp
  have h3: "snd (main_loop stub_env ?req [?r3] (Suc (Suc 0), Suc 1)) =
      Inr (Suc (Suc (Suc 0)), Suc (Suc 1))"
    by (simp only: snd_main_loop_single p3)
  obtain evd where "main_loop stub_env ?req ([?r1] @ ?r2 # [?r3]) (0, 1) =
      (fst (main_loop stub_env ?req [?r1] (0, 1)) @ evd @
         fst (main_loop stub_env ?req [?r3] (Suc (Suc 0), Suc 1)),
       snd (main_loop stub_env ?req [?r3] (Suc (Suc 0), Suc 1)))"
    using generation_failure_does_not_stop_the_run[OF h1 h2, of "lit ''Read timed out.''" _ "[?r3]"]
    by blast
  then have "snd (main_loop stub_env ?req ([?r1] @ ?r2 # [?r3]) (0, 1)) =
      Inr (Suc (Suc (Suc 0)), Suc (Suc 1))"
    using h3 by (simp only: snd_conv)
  moreover have "[?r1] @ ?r2 # [?r3] = [?r1, ?r2, ?r3]" by simp
  moreover have "(Inr (Suc (Suc (Suc 0)), Suc (Suc 1)) :: exn + nat \<times> nat) = Inr (3, 3)" by simp
  moreover have "backend stub_env 1 (build_prompt ?r2 ?req) = Post_raises (lit ''Read timed out.'')"
    using h2 by simp
  ultimately show ?thesis by (simp only: simp_thms)
qed

text \<open>
  Claim C5 as stated fails for two answers of the backend that the driver does not
  recognise as failures. When the second of three requests is answered with the JSON
  object whose \<open>response\<close> is \<open>null\<close>, \<open>generate_device_config\<close> raises
  \<open>AttributeError\<close>, nothing catches it, and the run ends there: it is the run over the
  first two records, the third is never processed. When it is answered with an object
  without \<open>response\<close> (an error payload), the placeholder text is taken for a
  configuration and the confirmation that precedes deployment is shown.
\<close>

theorem generation_failure_counterexample:
  "main_loop (stub_env_answering (Json_dict (Some (Non_text (lit ''NoneType'')))))
     (lit ''enable Gi0/1'')
     [inventory_row (lit ''R1'') (lit ''10.0.0.1''),
      inventory_row (lit ''R2'') (lit ''10.0.0.2''),
      inventory_row (lit ''R3'') (lit ''10.0.0.3'')] (0, 1) =
   main_loop (stub_env_answering (Json_dict (Some (Non_text (lit ''NoneType'')))))
     (lit ''enable Gi0/1'')
     [inventory_row (lit ''R1'') (lit ''10.0.0.1''),
      inventory_row (lit ''R2'') (lit ''10.0.0.2'')] (0, 1) \<and>
   snd (main_loop (stub_env_answering (Json_dict (Some (Non_text (lit ''NoneType'')))))
     (lit ''enable Gi0/1'')
     [inventory_row (lit ''R1'') (lit ''10.0.0.1''),
      inventory_row (lit ''R2'') (lit ''10.0.0.2''),
      inventory_row (lit ''R3'') (lit ''10.0.0.3'')] (0, 1)) =
   Inl (Exception (39 # lit ''NoneType'' @ 39 # lit '' object has no attribute '' @
          39 # lit ''startswith'' @ [39])) \<and>
   prompts (fst (process_device (stub_env_answering (Json_dict None)) (lit ''enable Gi0/1'')
     (inventory_row (lit ''R2'') (lit ''10.0.0.2'')) (1, 2))) =
   [lit ''\<newline>Apply configuration to '' @ lit ''R2'' @ lit ''? (y/N): '']"
proof -
  let ?E = "stub_env_answering (Json_dict (Some (Non_text (lit ''NoneType''))))"
  let ?req = "lit ''enable Gi0/1''"
  let ?t = "lit ''interface Gi0/1\<newline> no shutdown''"
  let ?r1 = "inventory_row (lit ''R1'') (lit ''10.0.0.1'')"
  let ?r2 = "inventory_row (lit ''R2'') (lit ''10.0.0.2'')"
  let ?r3 = "inventory_row (lit ''R3'') (lit ''10.0.0.3'')"
  let ?x = "Exception (39 # lit ''NoneType'' @ 39 # lit '' object has no attribute '' @
          39 # lit ''startswith'' @ [39])"
  have b: "backend ?E 0 p = Json_dict (Some (Text ?t))" for p
    by (simp add: stub_env_answering_def)
  have t1: "\<not> startswith ?t (lit ''Error'')" by (simp add: startswith_def lit_def)
  have t2: "?t \<noteq> []" by (simp add: lit_def)
  have t3: "process_generated_config ?t \<noteq> []"
    by (simp add: process_generated_config_def strip_prompt_def eval_str)
  have p1: "snd (process_device ?E ?req ?r1 (0, Suc 0)) = Inr (Suc 0, Suc (Suc 0))"
    by (rule process_device_text[OF b t1 t2 t3])
  then obtain ev1 where
    e1: "process_device ?E ?req ?r1 (0, Suc 0) = (ev1, Inr (Suc 0, Suc (Suc 0)))"
    by (cases "process_device ?E ?req ?r1 (0, Suc 0)") auto
  have b2: "backend ?E (Suc 0) p = Json_dict (Some (Non_text (lit ''NoneType'')))" for p
    by (simp add: stub_env_answering_def)
  have "snd (process_device ?E ?req ?r2 (Suc 0, Suc (Suc 0))) = Inl ?x"
    by (simp add: process_device_def generate_device_config_def query_ollama_def
        ollama_request_def Let_def b2)
  then obtain ev2 where
    e2: "process_device ?E ?req ?r2 (Suc 0, Suc (Suc 0)) = (ev2, Inl ?x)"
    by (cases "process_device ?E ?req ?r2 (Suc 0, Suc (Suc 0))") auto
  have m3: "main_loop ?E ?req [?r1, ?r2, ?r3] (0, 1) = (ev1 @ ev2, Inl ?x)"
    by (simp add: e1 e2)
  have m2: "main_loop ?E ?req [?r1, ?r2] (0, 1) = (ev1 @ ev2, Inl ?x)"
    by (simp add: e1 e2)
  have n: "lit ''No response generated'' \<noteq> []"
    "\<not> startswith (lit ''No response generated'') (lit ''Error'')"
    "process_generated_config (lit ''No response generated'') \<noteq> []"
    by (simp_all add: process_generated_config_def strip_prompt_def eval_str)
  have d: "dict_get ?r2 (lit ''Name'') (lit ''Unknown'') = lit ''R2''"
    by (simp add: dict_get_def inventory_row_def lit_def)
  have b3: "backend (stub_env_answering (Json_dict None)) (Suc 0) p = Json_dict None" for p
    by (simp add: stub_env_answering_def)
  have p: "prompts (fst (process_device (stub_env_answering (Json_dict None)) ?req ?r2 (1, 2))) =
      [lit ''\<newline>Apply configuration to '' @ lit ''R2'' @ lit ''? (y/N): '']"
    by (simp add: process_device_def generate_device_config_def query_ollama_def
        ollama_request_def Let_def b3 n d prompts_append)
  show ?thesis using m3 m2 p by simp
qed

text \<open>
  The body of the loop returns for every answer of the backend that is text or an
  exception.
\<close>

lemma process_device_returns:
  assumes "\<forall>ty. backend E n (build_prompt d req) \<noteq> Json_dict (Some (Non_text ty))"
  shows "\<exists>evs k'. process_device E req d (n, k) = (evs, Inr (Suc n, k'))"
proof (cases "snd (query_ollama (backend E n) (build_prompt d req))")
  case (Inl e)
  then show ?thesis using query_ollama_returns[of "backend E n" "build_prompt d req"] by simp
next
  case (Inr v)
  show ?thesis
  proof (cases v)
    case (Non_text ty)
    then have False using Inr assms
      by (auto simp: query_ollama_def ollama_request_def split: http_outcome.splits option.splits)
    then show ?thesis ..
  next
    case (Text t)
    then have q: "query_ollama (backend E n) (build_prompt d req) =
        ([Post (build_prompt d req)], Inr (Text t))"
      using Inr by (simp add: query_ollama_def)
    show ?thesis
      by (simp add: process_device_def generate_device_config_def Let_def q)
  qed
qed

text \<open>
  When the backend never answers with a JSON value that is not text, the loop returns
  normally after one request for each record of the inventory, whichever of the requests
  fail.
\<close>

theorem main_loop_completes:
  assumes "\<forall>n p ty. backend E n p \<noteq> Json_dict (Some (Non_text ty))"
  shows "\<exists>evs k'. main_loop E req inventory (n, k) = (evs, Inr (n + length inventory, k'))"
proof (induction inventory arbitrary: n k)
  case Nil show ?case by simp
next
  case (Cons d inventory)
  obtain evs k' where p: "process_device E req d (n, k) = (evs, Inr (Suc n, k'))"
    using process_device_returns[of E n d req k] assms by blast
  obtain evs' k'' where m: "main_loop E req inventory (Suc n, k') =
      (evs', Inr (Suc n + length inventory, k''))"
    using Cons.IH by blast
  show ?case by (simp add: p m)
qed

text \<open>
  The loop over the three devices, with the backend whose second request times out.
\<close>

theorem main_loop_completes_witness:
  "\<exists>evs k'. main_loop stub_env (lit ''enable Gi0/1'')
      [inventory_row (lit ''R1'') (lit ''10.0.0.1''),
       inventory_row (lit ''R2'') (lit ''10.0.0.2''),
       inventory_row (lit ''R3'') (lit ''10.0.0.3'')] (0, 1) = (evs, Inr (3, k'))"
proof -
  let ?inv = "[inventory_row (lit ''R1'') (lit ''10.0.0.1''),
       inventory_row (lit ''R2'') (lit ''10.0.0.2''),
       inventory_row (lit ''R3'') (lit ''10.0.0.3'')]"
  have len: "0 + length ?inv = 3" by simp
  have "\<exists>evs k'. main_loop stub_env (lit ''enable Gi0/1'') ?inv (0, 1) =
      (evs, Inr (0 + length ?inv, k'))"
    by (rule main_loop_completes) (simp add: stub_env_def)
  then show ?thesis unfolding len .
qed

end
